theory Spec2Isabelle
  imports Complex_Main
begin

section \<open>Python string operations used by the router\<close>

text \<open>
  Strings are \<open>char list\<close>. The model is the ASCII fragment of Python's \<open>str\<close>:
  \<open>lower\<close> maps A..Z to a..z and leaves every other character alone, and \<open>strip\<close>
  removes the ASCII whitespace characters Python strips (tab, LF, VT, FF, CR, the four
  separators 0x1C..0x1F and the space).
\<close>

definition lower_char :: "char \<Rightarrow> char" where
  "lower_char c =
     (case map_of (zip ''ABCDEFGHIJKLMNOPQRSTUVWXYZ'' ''abcdefghijklmnopqrstuvwxyz'') c of
        Some d \<Rightarrow> d
      | None \<Rightarrow> c)"

definition py_lower :: "string \<Rightarrow> string" where
  "py_lower s = map lower_char s"

definition is_space :: "char \<Rightarrow> bool" where
  "is_space c = (c \<in> set [CHR 0x09, CHR 0x0A, CHR 0x0B, CHR 0x0C, CHR 0x0D,
                           CHR 0x1C, CHR 0x1D, CHR 0x1E, CHR 0x1F, CHR '' ''])"

definition py_strip :: "string \<Rightarrow> string" where
  "py_strip s = rev (dropWhile is_space (rev (dropWhile is_space s)))"

text \<open>\<open>s.startswith(p)\<close>\<close>

fun startswith :: "string \<Rightarrow> string \<Rightarrow> bool" where
  "startswith s [] = True"
| "startswith [] (p # ps) = False"
| "startswith (c # cs) (p # ps) = (c = p \<and> startswith cs ps)"

text \<open>\<open>p in s\<close>: \<open>p\<close> occurs in \<open>s\<close> as a contiguous substring.\<close>

fun contains :: "string \<Rightarrow> string \<Rightarrow> bool" where
  "contains [] p = (p = [])"
| "contains (c # cs) p = (startswith (c # cs) p \<or> contains cs p)"

text \<open>
  \<open>s.replace(old, new)\<close> for a non-empty \<open>old\<close>: every non-overlapping occurrence,
  scanning from the left, is replaced. Every call site of the source passes a non-empty
  literal for \<open>old\<close>.
\<close>

function py_replace :: "string \<Rightarrow> string \<Rightarrow> string \<Rightarrow> string" where
  "py_replace [] old new = []"
| "py_replace (c # cs) old new =
     (if old \<noteq> [] \<and> startswith (c # cs) old
      then new @ py_replace (drop (length old) (c # cs)) old new
      else c # py_replace cs old new)"
  by pat_completeness auto
termination
  by (relation "measure (\<lambda>(s, old, new). length s)") (auto simp: neq_Nil_conv)

text \<open>
  \<open>s.split(sep, maxsplit)\<close> for a one-character separator: the string is cut at the
  first \<open>maxsplit\<close> separators; adjacent separators give empty tokens and the last
  token keeps the rest of the string unsplit.
\<close>

fun py_split :: "char \<Rightarrow> nat \<Rightarrow> string \<Rightarrow> string list" where
  "py_split sep 0 s = [s]"
| "py_split sep (Suc n) s =
     (if sep \<in> set s
      then takeWhile (\<lambda>c. c \<noteq> sep) s # py_split sep n (tl (dropWhile (\<lambda>c. c \<noteq> sep) s))
      else [s])"

text \<open>\<open>any(P(x) for x in xs)\<close>\<close>

primrec py_any :: "('a \<Rightarrow> bool) \<Rightarrow> 'a list \<Rightarrow> bool" where
  "py_any P [] = False"
| "py_any P (x # xs) = (P x \<or> py_any P xs)"


section \<open>The memory manager (mem0\_manager.py)\<close>

text \<open>
  Exceptions are values. \<open>exc_str\<close> is \<open>str(e)\<close>. The exception classes are the ones
  the modelled code can meet: subscripting a list with a string (TypeError), a missing
  dict key (KeyError), an out-of-range field in \<open>datetime.replace\<close> (ValueError), and
  whatever the remote client raises (ClientError with its message).
\<close>

datatype py_exception =
    TypeError string
  | KeyError string
  | ValueError string
  | ClientError string

fun exc_str :: "py_exception \<Rightarrow> string" where
  "exc_str (TypeError m) = m"
| "exc_str (KeyError m) = m"
| "exc_str (ValueError m) = m"
| "exc_str (ClientError m) = m"

text \<open>
  A memory as the client returns it: a dict read with \<open>.get\<close>, so each key may be absent.
  The score is the similarity the client computed; it is compared with the threshold
  only, so it is modelled by the real number the float denotes.
\<close>

record memory =
  mem_id :: "string option"
  mem_content :: "string option"
  mem_categories :: "string list option"
  mem_score :: "real option"

text \<open>
  What \<open>get_all\<close> and \<open>search\<close> of the client hand back: a list, or a dict that
  may or may not have the key \<open>results\<close>.
\<close>

datatype api_value =
    ApiList "memory list"
  | ApiDict "memory list option"

text \<open>
  The remote client is an oracle: each method either raises or returns.
  \<open>client_get_all user_id memory_type limit offset\<close>,
  \<open>client_search query user_id memory_type limit\<close>.
\<close>

record mem0_client =
  client_add :: "string \<Rightarrow> string \<Rightarrow> string \<Rightarrow> py_exception + unit"
  client_get_all :: "string \<Rightarrow> string option \<Rightarrow> nat \<Rightarrow> nat \<Rightarrow> py_exception + api_value"
  client_search :: "string \<Rightarrow> string \<Rightarrow> string option \<Rightarrow> nat \<Rightarrow> py_exception + api_value"
  client_update :: "string \<Rightarrow> string \<Rightarrow> py_exception + unit"
  client_delete :: "string \<Rightarrow> py_exception + unit"
  client_delete_all :: "string \<Rightarrow> py_exception + unit"

text \<open>The dict \<open>{"success": True, ...}\<close> or \<open>{"success": False, "error": str(e)}\<close>.\<close>

datatype op_result = Success | Failure string

definition add_memory :: "mem0_client \<Rightarrow> string \<Rightarrow> string \<Rightarrow> string \<Rightarrow> op_result" where
  "add_memory mc uid memory_text memory_type =
     (case client_add mc uid memory_text memory_type of
        Inr u \<Rightarrow> Success
      | Inl e \<Rightarrow> Failure (exc_str e))"

text \<open>
  \<open>get_memories\<close> returns what the client returned, and the empty list when the client
  raised.
\<close>

definition get_memories ::
  "mem0_client \<Rightarrow> string \<Rightarrow> nat \<Rightarrow> nat \<Rightarrow> string option \<Rightarrow> api_value" where
  "get_memories mc uid limit offset memory_type =
     (case client_get_all mc uid memory_type limit offset of
        Inr memories \<Rightarrow> memories
      | Inl e \<Rightarrow> ApiList [])"

text \<open>\<open>v['results']\<close>\<close>

fun subscript_results :: "api_value \<Rightarrow> py_exception + memory list" where
  "subscript_results (ApiList ms) =
     Inl (TypeError ''list indices must be integers or slices, not str'')"
| "subscript_results (ApiDict None) = Inl (KeyError (CHR 0x27 # ''results'' @ [CHR 0x27]))"
| "subscript_results (ApiDict (Some ms)) = Inr ms"

text \<open>\<open>memory.get('score', 0)\<close>\<close>

definition score_of :: "memory \<Rightarrow> real" where
  "score_of m = (case mem_score m of Some s \<Rightarrow> s | None \<Rightarrow> 0)"

text \<open>
  \<open>search_memories\<close>: the loop appends, in order, each result whose score reaches the
  threshold. Any exception inside the \<open>try\<close> (the client raising, or the subscript
  \<open>memories['results']\<close> failing) gives the empty list.
\<close>

definition search_memories ::
  "mem0_client \<Rightarrow> string \<Rightarrow> string \<Rightarrow> nat \<Rightarrow> string option \<Rightarrow> real \<Rightarrow> memory list" where
  "search_memories mc uid query limit memory_type threshold =
     (case client_search mc query uid memory_type limit of
        Inl e \<Rightarrow> []
      | Inr memories \<Rightarrow>
          (case subscript_results memories of
             Inl e \<Rightarrow> []
           | Inr results \<Rightarrow> filter (\<lambda>m. score_of m \<ge> threshold) results))"

definition update_memory :: "mem0_client \<Rightarrow> string \<Rightarrow> string \<Rightarrow> op_result" where
  "update_memory mc memory_id updated_text =
     (case client_update mc memory_id updated_text of
        Inr u \<Rightarrow> Success
      | Inl e \<Rightarrow> Failure (exc_str e))"

definition delete_memory :: "mem0_client \<Rightarrow> string \<Rightarrow> op_result" where
  "delete_memory mc memory_id =
     (case client_delete mc memory_id of
        Inr u \<Rightarrow> Success
      | Inl e \<Rightarrow> Failure (exc_str e))"

definition clear_user_memories :: "mem0_client \<Rightarrow> string \<Rightarrow> op_result" where
  "clear_user_memories mc uid =
     (case client_delete_all mc uid of
        Inr u \<Rightarrow> Success
      | Inl e \<Rightarrow> Failure (exc_str e))"


section \<open>The session, the gateway calls and the replies (app.py)\<close>

record session =
  memory_available :: bool
  calendar_authenticated :: bool
  user_id :: string

text \<open>
  A handler returns its reply together with the list of gateway calls it made, in
  order: the methods of the memory manager and the calendar functions imported from
  mcp\_calendar\_client.
\<close>

datatype gateway_call =
    AddMemory string string string
  | GetMemories string nat
  | SearchMemories string string nat real
  | UpdateMemory string string
  | DeleteMemory string
  | ClearUserMemories string
  | GetTodaysEvents
  | GetWeeklyEvents
  | GetUpcomingEvents
  | SearchEvents string nat
  | GetNextFreeSlot int
  | CheckAvailability

text \<open>
  One constructor per reply string of the source, carrying what the f-string
  interpolates. The listings carry the memories they render, in order.
\<close>

datatype reply =
    MemoryNotAvailable
  | MemoryStored string
  | MemoryError string
  | InvalidMemory
  | MemoryUpdated string string
  | UpdateError string
  | UsageUpdate
  | MemoryDeleted string
  | DeleteError string
  | UsageDelete
  | MemoriesAbout string "memory list"
  | YourMemories "memory list"
  | NoMemoriesAbout string
  | NoMemoriesStored
  | MemorySearchResults string "memory list"
  | NoMemoriesFound string
  | SpecifyMemorySearch
  | MemoriesCleared
  | PreferenceStored string
  | UnknownMemoryCommand
  | MemorySystemError string
  | TodaysSchedule string
  | WeeklySchedule string
  | UpcomingEvents string
  | SearchResults string string
  | SpecifyCalendarSearch
  | Availability string
  | AvailableNextTwoHours
  | BusyNextTwoHours
  | CalendarNotAuthenticated
  | HelpText
  | GreetingText
  | CommandNotRecognized


text \<open>\<open>d.get(key, default)\<close>, the key's value being \<open>None\<close> when the key is absent.\<close>

definition dict_get :: "'a option \<Rightarrow> 'a \<Rightarrow> 'a" where
  "dict_get v dflt = (case v of Some x \<Rightarrow> x | None \<Rightarrow> dflt)"


section \<open>The calendar handler (app.py, process\_calendar\_query)\<close>

text \<open>
  The calendar functions imported from mcp\_calendar\_client each catch every exception
  and return a dict, so the handler sees them as oracles that return: the
  \<open>formatted_output\<close> entry of the event queries, the \<open>message\<close> entry of the
  free-slot search, and the truth value of the \<open>available\<close> entry of the availability
  check for the two hours from now.
\<close>

record calendar_gateway =
  gw_get_todays_events :: "string option"
  gw_get_weekly_events :: "string option"
  gw_get_upcoming_events :: "string option"
  gw_search_events :: "string \<Rightarrow> nat \<Rightarrow> string option"
  gw_get_next_free_slot :: "int \<Rightarrow> string option"
  gw_check_availability :: bool

definition process_calendar_query :: "calendar_gateway \<Rightarrow> string \<Rightarrow> reply \<times> gateway_call list" where
  "process_calendar_query gw user_input =
     (let user_input_lower = py_strip (py_lower user_input) in
      if py_any (\<lambda>word. contains user_input_lower word) [''today'', ''today's'', ''todays'']
      then (TodaysSchedule (dict_get (gw_get_todays_events gw) ''No events found for today''),
            [GetTodaysEvents])
      else if py_any (\<lambda>word. contains user_input_lower word) [''week'', ''weekly'', ''this week'']
      then (WeeklySchedule (dict_get (gw_get_weekly_events gw) ''No events found for this week''),
            [GetWeeklyEvents])
      else if py_any (\<lambda>word. contains user_input_lower word)
                [''upcoming'', ''next events'', ''future events'']
      then (UpcomingEvents (dict_get (gw_get_upcoming_events gw) ''No upcoming events found''),
            [GetUpcomingEvents])
      else if startswith user_input_lower ''search '' \<or> startswith user_input_lower ''find ''
      then
        (let query = py_strip (py_replace (py_replace user_input_lower ''search'' []) ''find'' [])
         in if query \<noteq> []
            then (SearchResults query
                    (dict_get (gw_search_events gw query 10)
                       (''No events found for '' @ [CHR 0x22] @ query @ [CHR 0x22])),
                  [SearchEvents query 10])
            else (SpecifyCalendarSearch, []))
      else if py_any (\<lambda>word. contains user_input_lower word) [''available'', ''free'', ''busy'']
      then
        (if contains user_input_lower ''next'' \<and> contains user_input_lower ''free''
         then (Availability (dict_get (gw_get_next_free_slot gw 60) ''Unable to find free slot''),
               [GetNextFreeSlot 60])
         else if gw_check_availability gw
         then (AvailableNextTwoHours, [CheckAvailability])
         else (BusyNextTwoHours, [CheckAvailability]))
      else (TodaysSchedule (dict_get (gw_get_todays_events gw) ''No events found for today''),
            [GetTodaysEvents]))"


section \<open>The memory handler (app.py, process\_memory\_query)\<close>

text \<open>
  The tail of the recall branch: the listing when there are memories, the matching
  "none" reply otherwise. \<open>query\<close> is \<open>None\<close> when all memories were listed.
\<close>

definition recall_reply :: "string option \<Rightarrow> memory list \<Rightarrow> reply" where
  "recall_reply query memories =
     (if memories \<noteq> []
      then (case query of Some q \<Rightarrow> MemoriesAbout q memories | None \<Rightarrow> YourMemories memories)
      else (case query of Some q \<Rightarrow> NoMemoriesAbout q | None \<Rightarrow> NoMemoriesStored))"

text \<open>
  \<open>memory_manager.get_memories(user_id, limit=10)['results']\<close> followed by the listing.
  A failing subscript is caught by the handler's \<open>except Exception\<close>.
\<close>

definition list_all_memories :: "session \<Rightarrow> mem0_client \<Rightarrow> reply \<times> gateway_call list" where
  "list_all_memories st mc =
     (case subscript_results (get_memories mc (user_id st) 10 0 None) of
        Inl e \<Rightarrow> (MemorySystemError (exc_str e), [GetMemories (user_id st) 10])
      | Inr memories \<Rightarrow> (recall_reply None memories, [GetMemories (user_id st) 10]))"

definition process_memory_query ::
  "session \<Rightarrow> mem0_client \<Rightarrow> string \<Rightarrow> reply \<times> gateway_call list" where
  "process_memory_query st mc user_input =
     (let user_input_lower = py_strip (py_lower user_input) in
      if \<not> memory_available st then (MemoryNotAvailable, [])
      else if startswith user_input_lower ''remember that '' \<or>
              startswith user_input_lower ''remember i '' \<or>
              startswith user_input_lower ''remember to ''
      then
        (let memory_content =
               (if startswith user_input_lower ''remember that ''
                then py_strip (py_replace user_input ''remember that'' [])
                else if startswith user_input_lower ''remember i ''
                then py_strip (py_replace user_input ''remember i'' [])
                else if startswith user_input_lower ''remember to ''
                then py_strip (py_replace user_input ''remember to'' [])
                else user_input)
         in if memory_content \<noteq> [] \<and> length memory_content > 5
            then (case add_memory mc (user_id st) memory_content ''user_preference'' of
                    Success \<Rightarrow> (MemoryStored memory_content,
                                [AddMemory (user_id st) memory_content ''user_preference''])
                  | Failure err \<Rightarrow> (MemoryError err,
                                [AddMemory (user_id st) memory_content ''user_preference'']))
            else (InvalidMemory, []))
      else if startswith user_input_lower ''update memory ''
      then
        (let parts = py_split CHR '' '' 3 user_input
         in if length parts \<ge> 4
            then (let memory_id = parts ! 2; new_content = parts ! 3
                  in case update_memory mc memory_id new_content of
                       Success \<Rightarrow> (MemoryUpdated memory_id new_content,
                                   [UpdateMemory memory_id new_content])
                     | Failure err \<Rightarrow> (UpdateError err, [UpdateMemory memory_id new_content]))
            else (UsageUpdate, []))
      else if startswith user_input_lower ''delete memory ''
      then
        (let parts = py_split CHR '' '' 2 user_input
         in if length parts \<ge> 3
            then (let memory_id = parts ! 2
                  in case delete_memory mc memory_id of
                       Success \<Rightarrow> (MemoryDeleted memory_id, [DeleteMemory memory_id])
                     | Failure err \<Rightarrow> (DeleteError err, [DeleteMemory memory_id]))
            else (UsageDelete, []))
      else if startswith user_input_lower ''recall '' \<or>
              startswith user_input_lower ''remember about '' \<or>
              user_input_lower = ''what do you remember'' \<or>
              user_input_lower = ''my memories''
      then
        (if user_input_lower = ''what do you remember'' \<or> user_input_lower = ''my memories''
         then list_all_memories st mc
         else
           (let query = py_strip (py_replace (py_replace user_input_lower ''recall'' [])
                                    ''remember about'' [])
            in if query \<noteq> [] \<and> length query > 1
               then (recall_reply (Some query)
                       (search_memories mc (user_id st) query 10 None (1 / 2)),
                     [SearchMemories (user_id st) query 10 (1 / 2)])
               else list_all_memories st mc))
      else if startswith user_input_lower ''search memory '' \<or>
              startswith user_input_lower ''find in memory ''
      then
        (let query = py_strip (py_replace (py_replace user_input_lower ''search memory'' [])
                                 ''find in memory'' [])
         in if query \<noteq> [] \<and> length query > 1
            then (let memories = search_memories mc (user_id st) query 5 None (1 / 2)
                  in if memories \<noteq> []
                     then (MemorySearchResults query memories,
                           [SearchMemories (user_id st) query 5 (1 / 2)])
                     else (NoMemoriesFound query, [SearchMemories (user_id st) query 5 (1 / 2)]))
            else (SpecifyMemorySearch, []))
      else if user_input_lower = ''clear memories'' \<or>
              user_input_lower = ''delete memories'' \<or>
              user_input_lower = ''reset memories''
      then (case clear_user_memories mc (user_id st) of
              Success \<Rightarrow> (MemoriesCleared, [ClearUserMemories (user_id st)])
            | Failure err \<Rightarrow> (MemoryError err, [ClearUserMemories (user_id st)]))
      else if startswith user_input_lower ''i prefer '' \<or>
              startswith user_input_lower ''i like '' \<or>
              startswith user_input_lower ''set preference ''
      then (case add_memory mc (user_id st) user_input ''preference'' of
              Success \<Rightarrow> (PreferenceStored user_input,
                          [AddMemory (user_id st) user_input ''preference''])
            | Failure err \<Rightarrow> (MemoryError err, [AddMemory (user_id st) user_input ''preference'']))
      else (UnknownMemoryCommand, []))"


section \<open>The router (app.py, process\_user\_input)\<close>

definition memory_patterns :: "string list" where
  "memory_patterns =
     [''remember that'', ''remember i'', ''remember to'',
      ''recall'', ''remember about'', ''what do you remember'', ''my memories'',
      ''search memory'', ''find in memory'', ''update memory'', ''delete memory'',
      ''clear memories'', ''delete memories'', ''reset memories'',
      ''i prefer'', ''i like'', ''set preference'']"

definition calendar_patterns :: "string list" where
  "calendar_patterns =
     [''today'', ''today's'', ''todays'', ''week'', ''weekly'', ''this week'',
      ''upcoming'', ''next events'', ''future events'',
      ''search'', ''find'', ''available'', ''free'', ''busy'', ''schedule'',
      ''meeting'', ''event'', ''appointment'', ''calendar'']"

text \<open>
  The branch the \<open>if\<close>/\<open>elif\<close> chain of \<open>process_user_input\<close> takes, as a value.
\<close>

datatype route =
    MemoryHandler
  | CalendarHandler
  | NotAuthenticated
  | Help
  | Greeting
  | Unrecognized

definition classify :: "bool \<Rightarrow> string \<Rightarrow> route" where
  "classify authenticated user_input =
     (let user_input_lower = py_strip (py_lower user_input) in
      if py_any (\<lambda>pattern. startswith user_input_lower pattern \<or> contains user_input_lower pattern)
           memory_patterns
      then MemoryHandler
      else if py_any (\<lambda>pattern. contains user_input_lower pattern) calendar_patterns
      then (if \<not> authenticated then NotAuthenticated else CalendarHandler)
      else if user_input_lower \<in> set [''help'', ''commands'', ''what can you do'']
      then Help
      else if user_input_lower \<in> set [''hello'', ''hi'', ''hey'', ''greetings'']
      then Greeting
      else Unrecognized)"

text \<open>What each branch returns.\<close>

definition process_user_input ::
  "session \<Rightarrow> mem0_client \<Rightarrow> calendar_gateway \<Rightarrow> string \<Rightarrow> reply \<times> gateway_call list" where
  "process_user_input st mc gw user_input =
     (case classify (calendar_authenticated st) user_input of
        MemoryHandler \<Rightarrow> process_memory_query st mc user_input
      | CalendarHandler \<Rightarrow> process_calendar_query gw user_input
      | NotAuthenticated \<Rightarrow> (CalendarNotAuthenticated, [])
      | Help \<Rightarrow> (HelpText, [])
      | Greeting \<Rightarrow> (GreetingText, [])
      | Unrecognized \<Rightarrow> (CommandNotRecognized, []))"


section \<open>Naive datetimes (the datetime module, as calendar\_tools.py uses it)\<close>

text \<open>
  A naive \<open>datetime\<close> is its fields; the date is kept as its day number
  (\<open>date.toordinal()\<close>), which is all that the arithmetic of the slot search needs.
  A \<open>timedelta\<close> is its length in microseconds. The range of years Python accepts is
  not modelled: the instants here are within days of the wall clock.
\<close>

record datetime =
  day :: int
  hour :: int
  minute :: int
  second :: int
  microsecond :: int

definition valid_datetime :: "datetime \<Rightarrow> bool" where
  "valid_datetime d =
     (0 \<le> hour d \<and> hour d < 24 \<and> 0 \<le> minute d \<and> minute d < 60 \<and>
      0 \<le> second d \<and> second d < 60 \<and> 0 \<le> microsecond d \<and> microsecond d < 1000000)"

definition to_us :: "datetime \<Rightarrow> int" where
  "to_us d = (((day d * 24 + hour d) * 60 + minute d) * 60 + second d) * 1000000 + microsecond d"

definition of_us :: "int \<Rightarrow> datetime" where
  "of_us n =
     \<lparr> day = n div 1000000 div 60 div 60 div 24,
       hour = n div 1000000 div 60 div 60 mod 24,
       minute = n div 1000000 div 60 mod 60,
       second = n div 1000000 mod 60,
       microsecond = n mod 1000000 \<rparr>"

definition timedelta_days :: "int \<Rightarrow> int" where
  "timedelta_days n = n * 24 * 60 * 60 * 1000000"

definition timedelta_hours :: "int \<Rightarrow> int" where
  "timedelta_hours n = n * 60 * 60 * 1000000"

definition timedelta_minutes :: "int \<Rightarrow> int" where
  "timedelta_minutes n = n * 60 * 1000000"

text \<open>\<open>d + delta\<close> and \<open>a < b\<close> on datetimes.\<close>

definition dt_add :: "datetime \<Rightarrow> int \<Rightarrow> datetime" where
  "dt_add d delta = of_us (to_us d + delta)"

definition dt_less :: "datetime \<Rightarrow> datetime \<Rightarrow> bool" where
  "dt_less a b = (to_us a < to_us b)"

text \<open>
  \<open>d.replace(hour=.., minute=.., second=.., microsecond=..)\<close>, a field being
  \<open>None\<close> when the call does not pass it. The new fields are range-checked in this
  order, and the first one out of range raises ValueError.
\<close>

definition dt_replace ::
  "datetime \<Rightarrow> int option \<Rightarrow> int option \<Rightarrow> int option \<Rightarrow> int option \<Rightarrow> py_exception + datetime" where
  "dt_replace d h m s us =
     (let hour' = dict_get h (hour d);
          minute' = dict_get m (minute d);
          second' = dict_get s (second d);
          microsecond' = dict_get us (microsecond d)
      in if \<not> (0 \<le> hour' \<and> hour' \<le> 23) then Inl (ValueError ''hour must be in 0..23'')
         else if \<not> (0 \<le> minute' \<and> minute' \<le> 59) then Inl (ValueError ''minute must be in 0..59'')
         else if \<not> (0 \<le> second' \<and> second' \<le> 59) then Inl (ValueError ''second must be in 0..59'')
         else if \<not> (0 \<le> microsecond' \<and> microsecond' \<le> 999999)
         then Inl (ValueError ''microsecond must be in 0..999999'')
         else Inr (d\<lparr>hour := hour', minute := minute', second := second',
                     microsecond := microsecond'\<rparr>))"


section \<open>The calendar client (calendar\_tools.py)\<close>

text \<open>
  The free/busy response of the provider is a dict. \<open>None\<close> stands for a dict without
  the key \<open>calendars\<close> (the empty dict among them); under \<open>calendars\<close> each calendar
  id maps to a dict whose key \<open>busy\<close>, when present, lists the busy intervals as pairs
  of (start, end) timestamps.
\<close>

type_synonym busy_slot = "string \<times> string"

type_synonym free_busy = "(string \<rightharpoonup> busy_slot list option) option"

text \<open>
  The request body. The source sends \<open>start_time.isoformat() + 'Z'\<close> and the same for
  the end; the model keeps the datetimes themselves.
\<close>

record freebusy_body =
  timeMin :: datetime
  timeMax :: datetime
  items :: "string list"

datatype http_error = HttpError string

text \<open>
  The client: its \<open>authenticated\<close> flag, and the two things outside the program it
  depends on, as oracles: whether \<open>authenticate()\<close> succeeds, and what the provider's
  free/busy query answers (a response, or HttpError, the exception the source
  handles).
\<close>

record calendar_client =
  authenticated :: bool
  authenticate_succeeds :: bool
  freebusy_query :: "freebusy_body \<Rightarrow> http_error + free_busy"

definition authenticate :: "calendar_client \<Rightarrow> bool \<times> calendar_client" where
  "authenticate c =
     (if authenticate_succeeds c
      then (True, c\<lparr>authenticated := True\<rparr>)
      else (False, c\<lparr>authenticated := False\<rparr>))"

definition query_free_busy ::
  "calendar_client \<Rightarrow> datetime \<Rightarrow> datetime \<Rightarrow> free_busy \<times> calendar_client" where
  "query_free_busy c start_time end_time =
     (let body = \<lparr> timeMin = start_time, timeMax = end_time, items = [''primary''] \<rparr>
      in case freebusy_query c body of
           Inr free_busy_result \<Rightarrow> (free_busy_result, c)
         | Inl error \<Rightarrow> (None, c))"

definition get_free_busy_info ::
  "calendar_client \<Rightarrow> datetime \<Rightarrow> datetime \<Rightarrow> free_busy \<times> calendar_client" where
  "get_free_busy_info c start_time end_time =
     (if \<not> authenticated c
      then (case authenticate c of
              (ok, c') \<Rightarrow> if \<not> ok then (None, c') else query_free_busy c' start_time end_time)
      else query_free_busy c start_time end_time)"

definition is_available ::
  "calendar_client \<Rightarrow> datetime \<Rightarrow> datetime \<Rightarrow> bool \<times> calendar_client" where
  "is_available c start_time end_time =
     (case get_free_busy_info c start_time end_time of
        (free_busy, c') \<Rightarrow>
          (case free_busy of
             None \<Rightarrow> (True, c')
           | Some calendars \<Rightarrow>
               (let calendar_busy = dict_get (calendars ''primary'') None;
                    busy_slots = dict_get calendar_busy []
                in (length busy_slots = 0, c'))))"


text \<open>
  The \<open>while\<close> loop of \<open>get_next_free_slot\<close>: candidates are tested while they are
  before \<open>check_end\<close>, and the next candidate is one hour later.
\<close>

function free_slot_loop ::
  "calendar_client \<Rightarrow> datetime \<Rightarrow> int \<Rightarrow> datetime \<Rightarrow> datetime option \<times> calendar_client" where
  "free_slot_loop c check_end duration_minutes current_check =
     (if dt_less current_check check_end
      then (let slot_end = dt_add current_check (timedelta_minutes duration_minutes)
            in case is_available c current_check slot_end of
                 (available, c') \<Rightarrow>
                   if available then (Some current_check, c')
                   else free_slot_loop c' check_end duration_minutes
                          (dt_add current_check (timedelta_hours 1)))
      else (None, c))"
  by pat_completeness auto
termination
proof (relation "measure (\<lambda>(c, check_end, duration_minutes, current_check).
                            nat (to_us check_end - to_us current_check))")
  show "wf (measure (\<lambda>(c, check_end, duration_minutes, current_check).
                            nat (to_us check_end - to_us current_check)))"
    by simp
next
  fix c :: calendar_client and check_end :: datetime and duration_minutes :: int
    and current_check :: datetime and c' :: calendar_client
  assume "dt_less current_check check_end"
  moreover have "to_us (dt_add current_check (timedelta_hours 1)) = to_us current_check + 3600000000"
    by (simp add: dt_add_def timedelta_hours_def to_us_def of_us_def)
  ultimately show "((c', check_end, duration_minutes, dt_add current_check (timedelta_hours 1)),
                    (c, check_end, duration_minutes, current_check))
         \<in> measure (\<lambda>(c, check_end, duration_minutes, current_check).
                            nat (to_us check_end - to_us current_check))"
    by (simp add: dt_less_def)
qed

declare free_slot_loop.simps [simp del]

text \<open>
  The rounding at the head of \<open>get_next_free_slot\<close>: seconds and microseconds are
  cleared, then the minute is set to 30 when it is below 30, and otherwise the hour is
  replaced by the hour plus one with minute 0.
\<close>

definition round_to_boundary :: "datetime \<Rightarrow> py_exception + datetime" where
  "round_to_boundary now =
     (case dt_replace now None None (Some 0) (Some 0) of
        Inl e \<Rightarrow> Inl e
      | Inr current_check \<Rightarrow>
          if minute current_check < 30
          then dt_replace current_check None (Some 30) None None
          else dt_replace current_check (Some (hour current_check + 1)) (Some 0) None None)"

text \<open>\<open>now\<close> is what \<open>datetime.now()\<close> returned.\<close>

definition get_next_free_slot ::
  "calendar_client \<Rightarrow> datetime \<Rightarrow> int \<Rightarrow> py_exception + datetime option \<times> calendar_client" where
  "get_next_free_slot c now duration_minutes =
     (let check_end = dt_add now (timedelta_days 7)
      in case round_to_boundary now of
           Inl e \<Rightarrow> Inl e
         | Inr current_check \<Rightarrow> Inr (free_slot_loop c check_end duration_minutes current_check))"


section \<open>The free-slot tool (mcp\_calendar\_client.py, get\_next\_free\_slot)\<close>

text \<open>The \<open>message\<close> of the dict the tool returns, with what it interpolates.\<close>

datatype slot_report =
    AuthenticationRequired
  | NextAvailableSlot int datetime
  | NoSlotInNextSevenDays int
  | FailedToFindFreeSlot string

definition tool_get_next_free_slot ::
  "calendar_client \<Rightarrow> datetime \<Rightarrow> int \<Rightarrow> slot_report \<times> calendar_client" where
  "tool_get_next_free_slot c now duration_minutes =
     (case (if \<not> authenticated c then authenticate c else (True, c)) of
        (auth_result, c1) \<Rightarrow>
          if \<not> auth_result then (AuthenticationRequired, c1)
          else (case get_next_free_slot c1 now duration_minutes of
                  Inl e \<Rightarrow> (FailedToFindFreeSlot (exc_str e), c1)
                | Inr (Some next_slot, c2) \<Rightarrow> (NextAvailableSlot duration_minutes next_slot, c2)
                | Inr (None, c2) \<Rightarrow> (NoSlotInNextSevenDays duration_minutes, c2)))"


section \<open>Concrete sessions, clients and calendars\<close>

text \<open>A calendar whose provider answers every free/busy query with no busy interval.\<close>

definition free_calendar :: calendar_client where
  "free_calendar =
     \<lparr> authenticated = True, authenticate_succeeds = True,
       freebusy_query = (\<lambda>body. Inr (Some [''primary'' \<mapsto> Some []])) \<rparr>"


text \<open>A memory client that is out of reach: every method raises.\<close>

definition failing_client :: mem0_client where
  "failing_client =
     \<lparr> client_add = (\<lambda>uid text kind. Inl (ClientError ''connection refused'')),
       client_get_all = (\<lambda>uid kind limit offset. Inl (ClientError ''connection refused'')),
       client_search = (\<lambda>query uid kind limit. Inl (ClientError ''connection refused'')),
       client_update = (\<lambda>memory_id text. Inl (ClientError ''connection refused'')),
       client_delete = (\<lambda>memory_id. Inl (ClientError ''connection refused'')),
       client_delete_all = (\<lambda>uid. Inl (ClientError ''connection refused'')) \<rparr>"

text \<open>The session as \<open>initialize_session_state\<close> leaves it when the memory manager starts.\<close>

definition student_session :: session where
  "student_session =
     \<lparr> memory_available = True, calendar_authenticated = False, user_id = ''student_001'' \<rparr>"

text \<open>The same session after the calendar was authenticated.\<close>

definition signed_in_session :: session where
  "signed_in_session =
     \<lparr> memory_available = True, calendar_authenticated = True, user_id = ''student_001'' \<rparr>"

text \<open>
  A memory client whose search returns three hits: one scored 0.9, one scored 0.3 and
  one without a score.
\<close>

definition scored_client :: mem0_client where
  "scored_client =
     \<lparr> client_add = (\<lambda>uid text kind. Inr ()),
       client_get_all = (\<lambda>uid kind limit offset. Inr (ApiDict (Some []))),
       client_search = (\<lambda>query uid kind limit.
          Inr (ApiDict (Some
            [\<lparr> mem_id = Some ''m1'', mem_content = Some ''project deadline is Friday'',
                mem_categories = None, mem_score = Some (9 / 10) \<rparr>,
             \<lparr> mem_id = Some ''m2'', mem_content = Some ''likes tea'',
                mem_categories = None, mem_score = Some (3 / 10) \<rparr>,
             \<lparr> mem_id = Some ''m3'', mem_content = Some ''gym on Mondays'',
                mem_categories = None, mem_score = None \<rparr>]))),
       client_update = (\<lambda>memory_id text. Inr ()),
       client_delete = (\<lambda>memory_id. Inr ()),
       client_delete_all = (\<lambda>uid. Inr ()) \<rparr>"

text \<open>A calendar gateway with no events.\<close>

definition demo_gateway :: calendar_gateway where
  "demo_gateway =
     \<lparr> gw_get_todays_events = Some ''No events found.'',
       gw_get_weekly_events = Some ''No events found.'',
       gw_get_upcoming_events = Some ''No events found.'',
       gw_search_events = (\<lambda>query max_results. Some ''No events found.''),
       gw_get_next_free_slot = (\<lambda>duration_minutes. None),
       gw_check_availability = True \<rparr>"


section \<open>The notions of the specification\<close>

text \<open>
  What the free/busy query for the range from \<open>start_time\<close> to \<open>end_time\<close> against the
  primary calendar reports: the provider's answer to that request, and nothing when the
  client cannot authenticate or the provider answers with HttpError.
\<close>

definition free_busy_answer :: "calendar_client \<Rightarrow> datetime \<Rightarrow> datetime \<Rightarrow> free_busy" where
  "free_busy_answer c start_time end_time =
     (if authenticated c \<or> authenticate_succeeds c
      then (case freebusy_query c
                   \<lparr> timeMin = start_time, timeMax = end_time, items = [''primary''] \<rparr> of
              Inr response \<Rightarrow> response
            | Inl error \<Rightarrow> None)
      else None)"

text \<open>The busy intervals an answer reports for the primary calendar.\<close>

definition reported_busy :: "free_busy \<Rightarrow> busy_slot list" where
  "reported_busy answer =
     (case answer of
        None \<Rightarrow> []
      | Some calendars \<Rightarrow>
          (case calendars ''primary'' of
             None \<Rightarrow> []
           | Some None \<Rightarrow> []
           | Some (Some busy_slots) \<Rightarrow> busy_slots))"


text \<open>
  The router's decision rule in the words of the specification, on the lower-cased,
  trimmed text: the two phrase sets and the ordered rule over them.
\<close>

definition spec_memory_set :: "string set" where
  "spec_memory_set =
     {''remember that'', ''remember i'', ''remember to'', ''recall'', ''remember about'',
      ''what do you remember'', ''my memories'', ''search memory'', ''find in memory'',
      ''update memory'', ''delete memory'', ''clear memories'', ''delete memories'',
      ''reset memories'', ''i prefer'', ''i like'', ''set preference''}"

definition spec_calendar_set :: "string set" where
  "spec_calendar_set =
     {''today'', ''today's'', ''todays'', ''week'', ''weekly'', ''this week'', ''upcoming'',
      ''next events'', ''future events'', ''search'', ''find'', ''available'', ''free'',
      ''busy'', ''schedule'', ''meeting'', ''event'', ''appointment'', ''calendar''}"

definition spec_route :: "bool \<Rightarrow> string \<Rightarrow> route" where
  "spec_route auth l =
     (if \<exists>p \<in> spec_memory_set. startswith l p \<or> contains l p then MemoryHandler
      else if \<exists>p \<in> spec_calendar_set. contains l p
      then (if auth then CalendarHandler else NotAuthenticated)
      else if l = ''help'' \<or> l = ''commands'' \<or> l = ''what can you do'' then Help
      else if l = ''hello'' \<or> l = ''hi'' \<or> l = ''hey'' \<or> l = ''greetings'' then Greeting
      else Unrecognized)"

text \<open>\<open>sep.join(tokens)\<close>, to say what the tokens of a split are.\<close>

fun py_join :: "char \<Rightarrow> string list \<Rightarrow> string" where
  "py_join sep [] = []"
| "py_join sep [x] = x"
| "py_join sep (x # y # ys) = x @ sep # py_join sep (y # ys)"

text \<open>
  The next boundary after \<open>now\<close>, as the specification describes the rounding: the :30
  of the same hour when the minute is below 30, and otherwise the next hour at :00,
  which after 23:30 is 00:00 of the next day.
\<close>

definition next_boundary :: "datetime \<Rightarrow> datetime" where
  "next_boundary now =
     (if minute now < 30
      then now\<lparr>minute := 30, second := 0, microsecond := 0\<rparr>
      else dt_add (now\<lparr>minute := 0, second := 0, microsecond := 0\<rparr>) (timedelta_hours 1))"

text \<open>
  Whether the window of \<open>duration_minutes\<close> that starts at \<open>start_time\<close> is available:
  the free/busy query for it reports no busy interval.
\<close>

definition window_available :: "calendar_client \<Rightarrow> int \<Rightarrow> datetime \<Rightarrow> bool" where
  "window_available c duration_minutes start_time =
     (reported_busy (free_busy_answer c start_time
                       (dt_add start_time (timedelta_minutes duration_minutes))) = [])"

text \<open>The candidates of the search: \<open>start\<close>, and then one hour later each time.\<close>

definition candidate :: "datetime \<Rightarrow> nat \<Rightarrow> datetime" where
  "candidate start k = dt_add start (timedelta_hours (int k))"

text \<open>
  \<open>res\<close> is the answer of a search that tests the candidates from \<open>start\<close> in order
  while they are before \<open>check_end\<close>: the first candidate whose window is available,
  or \<open>None\<close> when no candidate before \<open>check_end\<close> is.
\<close>

definition first_free_candidate ::
  "calendar_client \<Rightarrow> int \<Rightarrow> datetime \<Rightarrow> datetime \<Rightarrow> datetime option \<Rightarrow> bool" where
  "first_free_candidate c d start check_end res =
     (case res of
        Some x \<Rightarrow> \<exists>k. x = candidate start k \<and> dt_less x check_end \<and> window_available c d x \<and>
                    (\<forall>j<k. \<not> window_available c d (candidate start j))
      | None \<Rightarrow> \<forall>k. dt_less (candidate start k) check_end \<longrightarrow>
                    \<not> window_available c d (candidate start k))"


section \<open>Arithmetic of datetimes\<close>

lemma to_us_of_us: "to_us (of_us n) = n"
  by (simp add: to_us_def of_us_def)

lemma valid_of_us: "valid_datetime (of_us n)"
  by (simp add: valid_datetime_def of_us_def)

lemma split_digit:
  fixes q r m :: int
  assumes "0 \<le> r" and "r < m"
  shows "(q * m + r) div m = q" and "(q * m + r) mod m = r"
  using assms by (simp_all add: div_pos_pos_trivial)

lemma of_us_fields:
  assumes "0 \<le> m" "m < 60" "0 \<le> s" "s < 60" "0 \<le> us" "us < 1000000"
  shows "of_us (((c * 60 + m) * 60 + s) * 1000000 + us) =
           \<lparr> day = c div 24, hour = c mod 24, minute = m, second = s, microsecond = us \<rparr>"
proof -
  note a = split_digit [OF assms(5,6), of "(c * 60 + m) * 60 + s"]
  note b = split_digit [OF assms(3,4), of "c * 60 + m"]
  note c = split_digit [OF assms(1,2), of c]
  show ?thesis
    unfolding of_us_def a b c by (rule refl)
qed

lemma of_us_to_us:
  assumes "valid_datetime d"
  shows "of_us (to_us d) = d"
proof -
  from assms have v: "0 \<le> minute d" "minute d < 60" "0 \<le> second d" "second d < 60"
      "0 \<le> microsecond d" "microsecond d < 1000000" "0 \<le> hour d" "hour d < 24"
    by (simp_all add: valid_datetime_def)
  note h = split_digit [OF v(7,8), of "day d"]
  show ?thesis
    unfolding to_us_def of_us_fields [OF v(1-6)] h by simp
qed

lemma dt_add_dt_add: "dt_add (dt_add d a) b = dt_add d (a + b)"
  by (simp add: dt_add_def to_us_of_us add.assoc)

lemma dt_add_zero: "valid_datetime d \<Longrightarrow> dt_add d 0 = d"
  by (simp add: dt_add_def of_us_to_us)

lemma to_us_dt_add: "to_us (dt_add d a) = to_us d + a"
  by (simp add: dt_add_def to_us_of_us)

lemma hours_keep_minute:
  assumes "valid_datetime d"
  shows "minute (dt_add d (timedelta_hours k)) = minute d \<and>
     second (dt_add d (timedelta_hours k)) = second d \<and>
     microsecond (dt_add d (timedelta_hours k)) = microsecond d"
proof -
  from assms have v: "0 \<le> minute d" "minute d < 60" "0 \<le> second d" "second d < 60"
      "0 \<le> microsecond d" "microsecond d < 1000000"
    by (simp_all add: valid_datetime_def)
  have e: "to_us d + timedelta_hours k =
        ((((day d * 24 + hour d + k) * 60 + minute d) * 60 + second d) * 1000000 + microsecond d)"
    by (simp add: to_us_def timedelta_hours_def algebra_simps)
  show ?thesis
    unfolding dt_add_def e of_us_fields [OF v] by simp
qed


section \<open>The rounding step of the free-slot search\<close>

lemma round_to_boundary_raises_iff:
  "valid_datetime now \<Longrightarrow>
     (\<exists>e. round_to_boundary now = Inl e) \<longleftrightarrow> (hour now = 23 \<and> minute now \<ge> 30)"
  by (auto simp add: round_to_boundary_def dt_replace_def dict_get_def valid_datetime_def)

lemma round_to_boundary_value:
  "valid_datetime now \<Longrightarrow> \<not> (hour now = 23 \<and> minute now \<ge> 30) \<Longrightarrow>
     round_to_boundary now =
       Inr (if minute now < 30
            then now\<lparr>minute := 30, second := 0, microsecond := 0\<rparr>
            else now\<lparr>hour := hour now + 1, minute := 0, second := 0, microsecond := 0\<rparr>)"
  by (auto simp add: round_to_boundary_def dt_replace_def dict_get_def valid_datetime_def)

lemma next_boundary_same_day:
  assumes "valid_datetime now" and "\<not> (hour now = 23 \<and> minute now \<ge> 30)"
  shows "next_boundary now =
           (if minute now < 30
            then now\<lparr>minute := 30, second := 0, microsecond := 0\<rparr>
            else now\<lparr>hour := hour now + 1, minute := 0, second := 0, microsecond := 0\<rparr>)"
proof (cases "minute now < 30")
  case True
  then show ?thesis by (simp add: next_boundary_def)
next
  case False
  let ?r = "now\<lparr>hour := hour now + 1, minute := 0, second := 0, microsecond := 0\<rparr>"
  have v: "valid_datetime ?r"
    using assms False by (simp add: valid_datetime_def)
  have "to_us (now\<lparr>minute := 0, second := 0, microsecond := 0\<rparr>) + timedelta_hours 1 = to_us ?r"
    by (simp add: to_us_def timedelta_hours_def)
  then have "dt_add (now\<lparr>minute := 0, second := 0, microsecond := 0\<rparr>) (timedelta_hours 1) = ?r"
    unfolding dt_add_def using of_us_to_us [OF v] by simp
  then show ?thesis using False by (simp add: next_boundary_def)
qed

lemma round_to_boundary_next_boundary:
  assumes "valid_datetime now" and "\<not> (hour now = 23 \<and> minute now \<ge> 30)"
  shows "round_to_boundary now = Inr (next_boundary now)"
  using round_to_boundary_value [OF assms] next_boundary_same_day [OF assms] by simp

lemma valid_next_boundary: "valid_datetime now \<Longrightarrow> valid_datetime (next_boundary now)"
  by (auto simp add: next_boundary_def valid_datetime_def dt_add_def of_us_def)

lemma next_boundary_after_now:
  assumes "valid_datetime now"
  shows "to_us now < to_us (next_boundary now) \<and>
         to_us (next_boundary now) \<le> to_us now + timedelta_minutes 30"
proof (cases "minute now < 30")
  case True
  then show ?thesis
    using assms
    by (simp add: next_boundary_def to_us_def valid_datetime_def timedelta_minutes_def)
next
  case False
  have "to_us (next_boundary now)
          = to_us (now\<lparr>minute := 0, second := 0, microsecond := 0\<rparr>) + 3600000000"
    using False by (simp add: next_boundary_def to_us_dt_add timedelta_hours_def)
  then show ?thesis
    using assms False
    by (simp add: to_us_def valid_datetime_def timedelta_minutes_def)
qed

lemma next_boundary_aligned:
  "valid_datetime now \<Longrightarrow>
     (minute (next_boundary now) = 0 \<or> minute (next_boundary now) = 30) \<and>
     second (next_boundary now) = 0 \<and> microsecond (next_boundary now) = 0"
  using hours_keep_minute [of "now\<lparr>minute := 0, second := 0, microsecond := 0\<rparr>" 1]
  by (auto simp add: next_boundary_def valid_datetime_def)

text \<open>
  C3. The claim: the rounding step is total, also in the last half hour of a day, where
  it rolls over to 00:00 of the next day. The code at 23:45:10.000500: the minute is
  not below 30, so the hour is replaced by 24, and \<open>replace\<close> raises ValueError,
  where the next boundary is 00:00 of the next day.
\<close>

theorem round_to_boundary_last_half_hour:
  "round_to_boundary \<lparr> day = 738886, hour = 23, minute = 45, second = 10, microsecond = 500 \<rparr>
     = Inl (ValueError ''hour must be in 0..23'') \<and>
   next_boundary \<lparr> day = 738886, hour = 23, minute = 45, second = 10, microsecond = 500 \<rparr>
     = \<lparr> day = 738887, hour = 0, minute = 0, second = 0, microsecond = 0 \<rparr>"
  by (simp add: round_to_boundary_def dt_replace_def dict_get_def next_boundary_def
        dt_add_def to_us_def of_us_def timedelta_hours_def)


section \<open>Availability of a window\<close>

lemma get_free_busy_info_answer:
  "fst (get_free_busy_info c start_time end_time) = free_busy_answer c start_time end_time"
  by (auto simp add: get_free_busy_info_def free_busy_answer_def authenticate_def
        query_free_busy_def split: sum.splits)




section \<open>The free-slot search\<close>

lemma is_available_client:
  "is_available c s e = (b, c') \<Longrightarrow>
     freebusy_query c' = freebusy_query c \<and>
     authenticate_succeeds c' = authenticate_succeeds c \<and>
     (authenticated c' \<or> authenticate_succeeds c') = (authenticated c \<or> authenticate_succeeds c)"
  by (auto simp add: is_available_def get_free_busy_info_def authenticate_def
        query_free_busy_def Let_def split: if_splits sum.splits option.splits)

lemma window_available_client:
  assumes "freebusy_query c' = freebusy_query c"
    and "(authenticated c' \<or> authenticate_succeeds c') = (authenticated c \<or> authenticate_succeeds c)"
  shows "window_available c' d x = window_available c d x"
  using assms by (simp add: window_available_def free_busy_answer_def)

lemma is_available_window:
  "fst (is_available c x (dt_add x (timedelta_minutes d))) = window_available c d x"
proof -
  obtain fb c' where g: "get_free_busy_info c x (dt_add x (timedelta_minutes d)) = (fb, c')"
    by (cases "get_free_busy_info c x (dt_add x (timedelta_minutes d))")
  then have fb: "fb = free_busy_answer c x (dt_add x (timedelta_minutes d))"
    using get_free_busy_info_answer [of c x "dt_add x (timedelta_minutes d)"] by simp
  show ?thesis
    unfolding window_available_def fb [symmetric]
    by (simp add: is_available_def g reported_busy_def dict_get_def split: option.splits)
qed

lemma candidate_0: "valid_datetime start \<Longrightarrow> candidate start 0 = start"
  by (simp add: candidate_def timedelta_hours_def dt_add_zero)

lemma candidate_Suc:
  "candidate (dt_add start (timedelta_hours 1)) k = candidate start (Suc k)"
  by (simp add: candidate_def dt_add_dt_add timedelta_hours_def algebra_simps)

lemma to_us_candidate: "to_us (candidate start k) = to_us start + 3600000000 * int k"
  by (simp add: candidate_def to_us_dt_add timedelta_hours_def)

lemma free_slot_loop_first:
  assumes "valid_datetime cur"
    and "free_slot_loop c check_end d cur = (res, c')"
  shows "(case res of
            Some x \<Rightarrow> \<exists>k. x = candidate cur k \<and> dt_less x check_end \<and> window_available c d x \<and>
                        (\<forall>j<k. \<not> window_available c d (candidate cur j))
          | None \<Rightarrow> \<forall>k. dt_less (candidate cur k) check_end \<longrightarrow>
                        \<not> window_available c d (candidate cur k))"
  using assms
proof (induction c check_end d cur arbitrary: res c' rule: free_slot_loop.induct)
  case (1 c check_end d cur)
  show ?case
  proof (cases "dt_less cur check_end")
    case False
    then have "res = None"
      using "1.prems"(2) by (simp add: free_slot_loop.simps [of c check_end d cur])
    moreover have "\<not> dt_less (candidate cur k) check_end" for k
      using False by (simp add: dt_less_def to_us_candidate)
    ultimately show ?thesis by simp
  next
    case True
    obtain b c1 where av: "is_available c cur (dt_add cur (timedelta_minutes d)) = (b, c1)"
      by (cases "is_available c cur (dt_add cur (timedelta_minutes d))")
    have b: "b = window_available c d cur"
      using is_available_window [of c cur d] av by simp
    show ?thesis
    proof (cases b)
      case True
      then have "res = Some cur"
        using "1.prems"(2) \<open>dt_less cur check_end\<close> av
        by (simp add: free_slot_loop.simps [of c check_end d cur])
      moreover have "cur = candidate cur 0"
        using "1.prems"(1) by (simp add: candidate_0)
      ultimately show ?thesis
        using True b \<open>dt_less cur check_end\<close>
        by (auto intro!: exI [of _ 0])
    next
      case False
      let ?next = "dt_add cur (timedelta_hours 1)"
      have rec: "free_slot_loop c1 check_end d ?next = (res, c')"
        using "1.prems"(2) \<open>dt_less cur check_end\<close> av False
        by (simp add: free_slot_loop.simps [of c check_end d cur])
      have vn: "valid_datetime ?next"
        by (simp add: dt_add_def valid_of_us)
      have same: "window_available c1 d x = window_available c d x" for x
        using is_available_client [OF av] by (intro window_available_client) auto
      note ih = "1.IH" [OF \<open>dt_less cur check_end\<close> refl av [symmetric] False vn rec]
      have c0: "candidate cur 0 = cur"
        using "1.prems"(1) by (simp add: candidate_0)
      show ?thesis
      proof (cases res)
        case None
        then have n: "\<forall>k. dt_less (candidate cur (Suc k)) check_end \<longrightarrow>
                        \<not> window_available c d (candidate cur (Suc k))"
          using ih by (simp add: same candidate_Suc)
        have "\<not> window_available c d (candidate cur k)" if "dt_less (candidate cur k) check_end" for k
          using that n False b c0 by (cases k) auto
        then show ?thesis using None by simp
      next
        case (Some x)
        then obtain k where k: "x = candidate cur (Suc k)" "dt_less x check_end"
            "window_available c d x" "\<forall>j<k. \<not> window_available c d (candidate cur (Suc j))"
          using ih by (auto simp add: same candidate_Suc)
        have "\<not> window_available c d (candidate cur j)" if "j < Suc k" for j
          using that k(4) False b c0 by (cases j) auto
        then show ?thesis
          using Some k by (auto intro!: exI [of _ "Suc k"])
      qed
    qed
  qed
qed

lemma candidate_aligned:
  assumes "valid_datetime now"
  shows "(minute (candidate (next_boundary now) k) = 0 \<or>
          minute (candidate (next_boundary now) k) = 30) \<and>
         second (candidate (next_boundary now) k) = 0 \<and>
         microsecond (candidate (next_boundary now) k) = 0"
  using hours_keep_minute [OF valid_next_boundary [OF assms], of "int k"]
        next_boundary_aligned [OF assms]
  by (simp add: candidate_def)

text \<open>
  Outside the last half hour of a day the search does what the specification says: it
  starts at the next boundary, tests the candidates one hour apart that are before
  now + 7 days, and returns the first whose window is available, or \<open>None\<close>; a
  returned start has minute 0 or 30 and no seconds.
\<close>

lemma get_next_free_slot_first_candidate:
  assumes "valid_datetime now" and "\<not> (hour now = 23 \<and> minute now \<ge> 30)"
  shows "\<exists>res c'. get_next_free_slot c now d = Inr (res, c') \<and>
           first_free_candidate c d (next_boundary now) (dt_add now (timedelta_days 7)) res \<and>
           (\<forall>x. res = Some x \<longrightarrow>
                  (minute x = 0 \<or> minute x = 30) \<and> second x = 0 \<and> microsecond x = 0)"
proof -
  obtain res c' where
    loop: "free_slot_loop c (dt_add now (timedelta_days 7)) d (next_boundary now) = (res, c')"
    by (cases "free_slot_loop c (dt_add now (timedelta_days 7)) d (next_boundary now)")
  have run: "get_next_free_slot c now d = Inr (res, c')"
    by (simp add: get_next_free_slot_def round_to_boundary_next_boundary [OF assms] loop
          del: free_slot_loop.simps)
  note first = free_slot_loop_first [OF valid_next_boundary [OF assms(1)] loop]
  then have ffc: "first_free_candidate c d (next_boundary now) (dt_add now (timedelta_days 7)) res"
    by (simp add: first_free_candidate_def)
  have "(minute x = 0 \<or> minute x = 30) \<and> second x = 0 \<and> microsecond x = 0"
    if "res = Some x" for x
  proof -
    from first that obtain k where "x = candidate (next_boundary now) k" by auto
    then show ?thesis using candidate_aligned [OF assms(1), of k] by simp
  qed
  with run ffc show ?thesis by blast
qed

lemma tool_reports_first_candidate:
  assumes "valid_datetime now" and "\<not> (hour now = 23 \<and> minute now \<ge> 30)"
    and "authenticated c \<or> authenticate_succeeds c"
  shows "\<exists>res. first_free_candidate c d (next_boundary now) (dt_add now (timedelta_days 7)) res \<and>
           fst (tool_get_next_free_slot c now d) =
             (case res of Some x \<Rightarrow> NextAvailableSlot d x | None \<Rightarrow> NoSlotInNextSevenDays d)"
proof -
  let ?c1 = "if \<not> authenticated c then snd (authenticate c) else c"
  have c1: "(if \<not> authenticated c then authenticate c else (True, c)) = (True, ?c1)"
    using assms(3) by (auto simp add: authenticate_def)
  have same: "window_available ?c1 d x = window_available c d x" for x
    using assms(3) by (intro window_available_client) (auto simp add: authenticate_def)
  obtain res c' where run: "get_next_free_slot ?c1 now d = Inr (res, c')"
    and ffc: "first_free_candidate ?c1 d (next_boundary now) (dt_add now (timedelta_days 7)) res"
    using get_next_free_slot_first_candidate [OF assms(1,2), of ?c1 d] by blast
  have "first_free_candidate c d (next_boundary now) (dt_add now (timedelta_days 7)) res"
    using ffc unfolding first_free_candidate_def same .
  moreover have "fst (tool_get_next_free_slot c now d) =
             (case res of Some x \<Rightarrow> NextAvailableSlot d x | None \<Rightarrow> NoSlotInNextSevenDays d)"
    unfolding tool_get_next_free_slot_def c1 by (simp add: run split: option.splits)
  ultimately show ?thesis by blast
qed

text \<open>
  C2. The claim: the search rounds the current time up to the next boundary, the next
  hour at :00 when the minute is 30 or more, and returns the first available candidate.
  The code at 23:30:00 with a calendar that is free throughout: the rounding raises, the
  search tests no candidate, and the tool reports a failure instead of the slot at 00:00
  of the next day, which is the next boundary and is available.
\<close>

theorem get_next_free_slot_last_half_hour:
  "get_next_free_slot free_calendar
       \<lparr> day = 738886, hour = 23, minute = 30, second = 0, microsecond = 0 \<rparr> 60
     = Inl (ValueError ''hour must be in 0..23'') \<and>
   fst (tool_get_next_free_slot free_calendar
       \<lparr> day = 738886, hour = 23, minute = 30, second = 0, microsecond = 0 \<rparr> 60)
     = FailedToFindFreeSlot ''hour must be in 0..23'' \<and>
   next_boundary \<lparr> day = 738886, hour = 23, minute = 30, second = 0, microsecond = 0 \<rparr>
     = \<lparr> day = 738887, hour = 0, minute = 0, second = 0, microsecond = 0 \<rparr> \<and>
   window_available free_calendar 60
     \<lparr> day = 738887, hour = 0, minute = 0, second = 0, microsecond = 0 \<rparr>"
  by (simp add: tool_get_next_free_slot_def get_next_free_slot_def free_calendar_def
        round_to_boundary_def dt_replace_def dict_get_def next_boundary_def
        dt_add_def to_us_def of_us_def timedelta_hours_def window_available_def
        free_busy_answer_def reported_busy_def)

lemma get_next_free_slot_evening_example:
  "fst (tool_get_next_free_slot free_calendar
       \<lparr> day = 738886, hour = 22, minute = 30, second = 0, microsecond = 0 \<rparr> 60)
     = NextAvailableSlot 60
         \<lparr> day = 738886, hour = 23, minute = 0, second = 0, microsecond = 0 \<rparr> \<and>
   fst (tool_get_next_free_slot free_calendar
       \<lparr> day = 738886, hour = 9, minute = 12, second = 40, microsecond = 7 \<rparr> 90)
     = NextAvailableSlot 90
         \<lparr> day = 738886, hour = 9, minute = 30, second = 0, microsecond = 0 \<rparr>"
  by code_simp


section \<open>The memory handler\<close>

lemma startswith_first_char:
  "startswith s (a # p) \<Longrightarrow> a \<noteq> b \<Longrightarrow> \<not> startswith s (b # q)"
  by (cases s) auto

lemma recall_exact_lists_all:
  assumes "memory_available st"
    and "py_strip (py_lower user_input) = ''my memories'' \<or>
         py_strip (py_lower user_input) = ''what do you remember''"
  shows "process_memory_query st mc user_input = list_all_memories st mc"
proof -
  from assms(2) show ?thesis
  proof
    assume l: "py_strip (py_lower user_input) = ''my memories''"
    show ?thesis
      unfolding process_memory_query_def l Let_def using assms(1) by simp
  next
    assume l: "py_strip (py_lower user_input) = ''what do you remember''"
    show ?thesis
      unfolding process_memory_query_def l Let_def using assms(1) by simp
  qed
qed

text \<open>
  C10. \<open>get_memories\<close> returns the empty list when the client raises, and the recall of
  all memories ("my memories", "what do you remember") then fails on the subscript
  \<open>['results']\<close>: the reply is the memory system error, not "no memories stored yet".
\<close>

theorem get_memories_failure_is_system_error:
  assumes "client_get_all mc uid memory_type limit offset = Inl e"
  shows "get_memories mc uid limit offset memory_type = ApiList [] \<and>
         (memory_available st \<and> user_id st = uid \<and> memory_type = None \<and>
          limit = 10 \<and> offset = 0 \<and>
          (py_strip (py_lower user_input) = ''my memories'' \<or>
           py_strip (py_lower user_input) = ''what do you remember'')
          \<longrightarrow> process_memory_query st mc user_input =
                (MemorySystemError ''list indices must be integers or slices, not str'',
                 [GetMemories uid 10]) \<and>
              fst (process_memory_query st mc user_input) \<noteq> NoMemoriesStored)"
proof -
  have g: "get_memories mc uid limit offset memory_type = ApiList []"
    using assms by (simp add: get_memories_def)
  have "process_memory_query st mc user_input =
                (MemorySystemError ''list indices must be integers or slices, not str'',
                 [GetMemories uid 10])"
    if "memory_available st" "user_id st = uid" "memory_type = None" "limit = 10" "offset = 0"
       "py_strip (py_lower user_input) = ''my memories'' \<or>
           py_strip (py_lower user_input) = ''what do you remember''"
    using recall_exact_lists_all [OF that(1) that(6), of mc] that g
    by (simp add: list_all_memories_def)
  with g show ?thesis by simp
qed

theorem get_memories_failure_is_system_error_witness:
  "get_memories failing_client ''student_001'' 10 0 None = ApiList [] \<and>
   process_memory_query student_session failing_client ''My Memories'' =
     (MemorySystemError ''list indices must be integers or slices, not str'',
      [GetMemories ''student_001'' 10])"
proof -
  have a: "client_get_all failing_client ''student_001'' None 10 0
             = Inl (ClientError ''connection refused'')"
    by (simp add: failing_client_def)
  have b: "py_strip (py_lower ''My Memories'') = ''my memories''"
    by code_simp
  have c: "memory_available student_session \<and> user_id student_session = ''student_001''"
    by (simp add: student_session_def)
  show ?thesis
    using get_memories_failure_is_system_error [OF a, of student_session "''My Memories''"] b c
    by simp
qed

section \<open>Semantic search of memories\<close>









lemma recall_with_query_example:
  "process_memory_query student_session scored_client ''RECALL project'' =
     (MemoriesAbout ''project''
        [\<lparr> mem_id = Some ''m1'', mem_content = Some ''project deadline is Friday'',
                mem_categories = None, mem_score = Some (9 / 10) \<rparr>],
      [SearchMemories ''student_001'' ''project'' 10 (1 / 2)])"
  by code_simp

section \<open>The router\<close>

lemma py_any_iff: "py_any P xs \<longleftrightarrow> (\<exists>x \<in> set xs. P x)"
  by (induction xs) auto

lemma set_memory_patterns: "set memory_patterns = spec_memory_set"
  by (simp add: memory_patterns_def spec_memory_set_def)

lemma set_calendar_patterns: "set calendar_patterns = spec_calendar_set"
  by (simp add: calendar_patterns_def spec_calendar_set_def)

lemma classify_spec_route:
  "classify auth user_input = spec_route auth (py_strip (py_lower user_input))"
  unfolding classify_def spec_route_def Let_def py_any_iff set_memory_patterns
    set_calendar_patterns
  by simp

lemma distinct_memory_patterns: "distinct memory_patterns \<and> length memory_patterns = 17"
  by (simp add: memory_patterns_def)

lemma distinct_calendar_patterns: "distinct calendar_patterns \<and> length calendar_patterns = 19"
  by (simp add: calendar_patterns_def)

text \<open>
  C1. The router applies the ordered rule of the specification to the lower-cased,
  trimmed text: a memory phrase (17 of them) as prefix or substring gives the memory
  handler, before any calendar phrase is looked at; else a calendar phrase (19 of them)
  as substring gives the calendar handler when the calendar is authenticated and the
  fixed "not authenticated" reply with no gateway call otherwise; else the exact help
  words give the help text, the exact greetings the greeting, and anything else the
  "not recognized" reply.
\<close>

theorem process_user_input_decision_rule:
  "process_user_input st mc gw user_input =
     (case spec_route (calendar_authenticated st) (py_strip (py_lower user_input)) of
        MemoryHandler \<Rightarrow> process_memory_query st mc user_input
      | CalendarHandler \<Rightarrow> process_calendar_query gw user_input
      | NotAuthenticated \<Rightarrow> (CalendarNotAuthenticated, [])
      | Help \<Rightarrow> (HelpText, [])
      | Greeting \<Rightarrow> (GreetingText, [])
      | Unrecognized \<Rightarrow> (CommandNotRecognized, [])) \<and>
   card spec_memory_set = 17 \<and> card spec_calendar_set = 19"
proof -
  have "card (set memory_patterns) = 17"
    using distinct_memory_patterns distinct_card [of memory_patterns] by simp
  moreover have "card (set calendar_patterns) = 19"
    using distinct_calendar_patterns distinct_card [of calendar_patterns] by simp
  ultimately show ?thesis
    by (simp add: process_user_input_def classify_spec_route set_memory_patterns
          set_calendar_patterns)
qed

theorem process_user_input_decision_rule_witness:
  "process_user_input student_session scored_client demo_gateway ''Recall my meeting today''
     = process_memory_query student_session scored_client ''Recall my meeting today'' \<and>
   process_user_input student_session scored_client demo_gateway '' Am I FREE tomorrow? ''
     = (CalendarNotAuthenticated, []) \<and>
   process_user_input signed_in_session scored_client demo_gateway '' Am I FREE tomorrow? ''
     = process_calendar_query demo_gateway '' Am I FREE tomorrow? '' \<and>
   process_user_input signed_in_session scored_client demo_gateway '' Help ''
     = (HelpText, []) \<and>
   process_user_input signed_in_session scored_client demo_gateway ''HI''
     = (GreetingText, []) \<and>
   process_user_input signed_in_session scored_client demo_gateway ''help me''
     = (CommandNotRecognized, [])"
proof -
  have off: "calendar_authenticated student_session = False"
    by (simp add: student_session_def)
  have on: "calendar_authenticated signed_in_session = True"
    by (simp add: signed_in_session_def)
  have r1: "spec_route False (py_strip (py_lower ''Recall my meeting today'')) = MemoryHandler"
    by code_simp
  have r2: "spec_route False (py_strip (py_lower '' Am I FREE tomorrow? '')) = NotAuthenticated"
    by code_simp
  have r3: "spec_route True (py_strip (py_lower '' Am I FREE tomorrow? '')) = CalendarHandler"
    by code_simp
  have r4: "spec_route True (py_strip (py_lower '' Help '')) = Help"
    by code_simp
  have r5: "spec_route True (py_strip (py_lower ''HI'')) = Greeting"
    by code_simp
  have r6: "spec_route True (py_strip (py_lower ''help me'')) = Unrecognized"
    by code_simp
  show ?thesis
    using process_user_input_decision_rule
            [of student_session scored_client demo_gateway "''Recall my meeting today''"]
          process_user_input_decision_rule
            [of student_session scored_client demo_gateway "'' Am I FREE tomorrow? ''"]
          process_user_input_decision_rule
            [of signed_in_session scored_client demo_gateway "'' Am I FREE tomorrow? ''"]
          process_user_input_decision_rule
            [of signed_in_session scored_client demo_gateway "'' Help ''"]
          process_user_input_decision_rule
            [of signed_in_session scored_client demo_gateway "''HI''"]
          process_user_input_decision_rule
            [of signed_in_session scored_client demo_gateway "''help me''"]
    unfolding off on r1 r2 r3 r4 r5 r6
    by simp
qed




section \<open>The calendar search\<close>

lemma startswith_append: "startswith (p @ s) p"
  by (induction p) auto

lemma py_replace_absent: "\<not> contains s old \<Longrightarrow> py_replace s old new = s"
  by (induction s) auto

lemma py_replace_at_front:
  "old \<noteq> [] \<Longrightarrow> py_replace (old @ s) old new = new @ py_replace s old new"
  by (cases old) (simp_all add: startswith_append)

text \<open>
  C8. An input of the calendar handler that starts with "search " or "find " and holds
  none of the words of the three earlier sub-routes: the query is the lower-cased,
  trimmed text with every occurrence of "search" deleted, then every occurrence of
  "find", then trimmed. A non-empty query is searched with at most 10 results; an
  empty one gives the "please specify" reply and no gateway call.
\<close>

theorem calendar_search_query:
  assumes "l = py_strip (py_lower user_input)"
    and "startswith l ''search '' \<or> startswith l ''find ''"
    and "\<not> py_any (\<lambda>word. contains l word) [''today'', ''today's'', ''todays'']"
    and "\<not> py_any (\<lambda>word. contains l word) [''week'', ''weekly'', ''this week'']"
    and "\<not> py_any (\<lambda>word. contains l word) [''upcoming'', ''next events'', ''future events'']"
    and "query = py_strip (py_replace (py_replace l ''search'' []) ''find'' [])"
  shows "process_calendar_query gw user_input =
           (if query \<noteq> []
            then (SearchResults query
                    (dict_get (gw_search_events gw query 10)
                       (''No events found for '' @ [CHR 0x22] @ query @ [CHR 0x22])),
                  [SearchEvents query 10])
            else (SpecifyCalendarSearch, []))"
  using assms(2-5) unfolding process_calendar_query_def assms(1)[symmetric] assms(6) Let_def
  by simp

theorem calendar_search_query_witness:
  "process_calendar_query demo_gateway ''Find the team search sync'' =
     (SearchResults ''the team  sync'' ''No events found.'',
      [SearchEvents ''the team  sync'' 10]) \<and>
   process_calendar_query demo_gateway ''find search'' = (SpecifyCalendarSearch, [])"
proof -
  have a1: "startswith (py_strip (py_lower ''Find the team search sync'')) ''search '' \<or>
            startswith (py_strip (py_lower ''Find the team search sync'')) ''find ''"
    by code_simp
  have a2: "\<not> py_any (\<lambda>word. contains (py_strip (py_lower ''Find the team search sync'')) word)
                 [''today'', ''today's'', ''todays'']"
    by code_simp
  have a3: "\<not> py_any (\<lambda>word. contains (py_strip (py_lower ''Find the team search sync'')) word)
                 [''week'', ''weekly'', ''this week'']"
    by code_simp
  have a4: "\<not> py_any (\<lambda>word. contains (py_strip (py_lower ''Find the team search sync'')) word)
                 [''upcoming'', ''next events'', ''future events'']"
    by code_simp
  have a5: "py_strip (py_replace (py_replace (py_strip (py_lower ''Find the team search sync''))
                ''search'' []) ''find'' []) = ''the team  sync''"
    by code_simp
  have b1: "startswith (py_strip (py_lower ''find search'')) ''search '' \<or>
            startswith (py_strip (py_lower ''find search'')) ''find ''"
    by code_simp
  have b2: "\<not> py_any (\<lambda>word. contains (py_strip (py_lower ''find search'')) word)
                 [''today'', ''today's'', ''todays'']"
    by code_simp
  have b3: "\<not> py_any (\<lambda>word. contains (py_strip (py_lower ''find search'')) word)
                 [''week'', ''weekly'', ''this week'']"
    by code_simp
  have b4: "\<not> py_any (\<lambda>word. contains (py_strip (py_lower ''find search'')) word)
                 [''upcoming'', ''next events'', ''future events'']"
    by code_simp
  have b5: "py_strip (py_replace (py_replace (py_strip (py_lower ''find search''))
                ''search'' []) ''find'' []) = []"
    by code_simp
  show ?thesis
    using calendar_search_query [OF refl a1 a2 a3 a4 refl, of demo_gateway]
          calendar_search_query [OF refl b1 b2 b3 b4 refl, of demo_gateway]
    unfolding a5 b5
    by (simp add: demo_gateway_def dict_get_def)
qed

section \<open>Updating a memory\<close>

lemma py_split_nonempty: "py_split sep n s \<noteq> []"
  by (cases n) auto

lemma py_split_length: "length (py_split sep n s) \<le> Suc n"
  by (induction n arbitrary: s) auto

lemma split_at_sep:
  "sep \<in> set s \<Longrightarrow>
     takeWhile (\<lambda>c. c \<noteq> sep) s @ sep # tl (dropWhile (\<lambda>c. c \<noteq> sep) s) = s"
  by (induction s) auto

lemma py_join_cons: "ys \<noteq> [] \<Longrightarrow> py_join sep (x # ys) = x @ sep # py_join sep ys"
  by (cases ys) auto

lemma py_split_join: "py_join sep (py_split sep n s) = s"
proof (induction n arbitrary: s)
  case 0
  show ?case by simp
next
  case (Suc n)
  show ?case
  proof (cases "sep \<in> set s")
    case True
    then show ?thesis
      using Suc [of "tl (dropWhile (\<lambda>c. c \<noteq> sep) s)"] split_at_sep [of sep s]
      by (simp add: py_join_cons py_split_nonempty)
  next
    case False
    then show ?thesis by simp
  qed
qed

lemma py_split_tokens: "tok \<in> set (butlast (py_split sep n s)) \<Longrightarrow> sep \<notin> set tok"
proof (induction n arbitrary: s)
  case 0
  then show ?case by simp
next
  case (Suc n)
  then show ?case
    by (auto simp add: py_split_nonempty split: if_splits dest: set_takeWhileD)
qed

lemma update_branch:
  assumes "memory_available st"
    and "startswith (py_strip (py_lower user_input)) ''update memory ''"
  shows "process_memory_query st mc user_input =
     (let parts = py_split CHR '' '' 3 user_input
      in if length parts \<ge> 4
         then (case update_memory mc (parts ! 2) (parts ! 3) of
                 Success \<Rightarrow> (MemoryUpdated (parts ! 2) (parts ! 3),
                             [UpdateMemory (parts ! 2) (parts ! 3)])
               | Failure err \<Rightarrow> (UpdateError err, [UpdateMemory (parts ! 2) (parts ! 3)]))
         else (UsageUpdate, []))"
proof -
  have "\<not> startswith (py_strip (py_lower user_input)) ''remember that ''"
       "\<not> startswith (py_strip (py_lower user_input)) ''remember i ''"
       "\<not> startswith (py_strip (py_lower user_input)) ''remember to ''"
    using assms(2) by (auto dest: startswith_first_char)
  then show ?thesis
    unfolding process_memory_query_def Let_def using assms by simp
qed

lemma update_bare:
  assumes "memory_available st" and "py_strip (py_lower user_input) = ''update memory''"
  shows "process_memory_query st mc user_input = (UnknownMemoryCommand, [])"
  unfolding process_memory_query_def assms(2) Let_def using assms(1) by simp

text \<open>
  C6, as amended. With the memory system available, a text whose lower-cased, trimmed
  form starts with "update memory " is cut at its first three single spaces into at most
  four tokens (joined by spaces they give the text back, and only the last may hold a
  space); with fewer than four tokens the reply is the usage message and no gateway
  call is made, with four the only call is \<open>update_memory\<close> with token 2 as id and
  token 3 as content. The bare "update memory" does not reach this branch: its reply is
  the unknown-command fallback, again with no gateway call.
\<close>

theorem update_memory_usage:
  assumes "memory_available st"
  shows "(startswith (py_strip (py_lower user_input)) ''update memory '' \<longrightarrow>
            length (py_split CHR '' '' 3 user_input) \<le> 4 \<and>
            py_join CHR '' '' (py_split CHR '' '' 3 user_input) = user_input \<and>
            (\<forall>tok \<in> set (butlast (py_split CHR '' '' 3 user_input)). CHR '' '' \<notin> set tok) \<and>
            (length (py_split CHR '' '' 3 user_input) < 4 \<longrightarrow>
               process_memory_query st mc user_input = (UsageUpdate, [])) \<and>
            (length (py_split CHR '' '' 3 user_input) = 4 \<longrightarrow>
               snd (process_memory_query st mc user_input) =
                 [UpdateMemory (py_split CHR '' '' 3 user_input ! 2)
                               (py_split CHR '' '' 3 user_input ! 3)])) \<and>
         (py_strip (py_lower user_input) = ''update memory'' \<longrightarrow>
            process_memory_query st mc user_input = (UnknownMemoryCommand, []))"
proof -
  have len: "length (py_split CHR '' '' 3 user_input) \<le> 4"
    using py_split_length [of "CHR '' ''" 3 user_input] by simp
  have toks: "\<forall>tok \<in> set (butlast (py_split CHR '' '' 3 user_input)). CHR '' '' \<notin> set tok"
    using py_split_tokens by blast
  have branch: "(length (py_split CHR '' '' 3 user_input) < 4 \<longrightarrow>
               process_memory_query st mc user_input = (UsageUpdate, [])) \<and>
            (length (py_split CHR '' '' 3 user_input) = 4 \<longrightarrow>
               snd (process_memory_query st mc user_input) =
                 [UpdateMemory (py_split CHR '' '' 3 user_input ! 2)
                               (py_split CHR '' '' 3 user_input ! 3)])"
    if "startswith (py_strip (py_lower user_input)) ''update memory ''"
    unfolding update_branch [OF assms that] Let_def
    by (simp split: op_result.splits)
  from len toks branch update_bare [OF assms] py_split_join [of "CHR '' ''" 3 user_input]
  show ?thesis by blast
qed

text \<open>
  C6 as stated fails on the bare input "update memory": it splits into two tokens, and
  the reply is the unknown-command fallback, not the usage message.
\<close>

theorem update_memory_bare_counterexample:
  "startswith ''update memory'' ''update memory'' \<and>
   length (py_split CHR '' '' 3 ''update memory'') = 2 \<and>
   process_memory_query student_session scored_client ''update memory''
     = (UnknownMemoryCommand, []) \<and>
   fst (process_memory_query student_session scored_client ''update memory'') \<noteq> UsageUpdate"
  by code_simp

theorem update_memory_usage_witness:
  "process_memory_query student_session scored_client ''update memory abc'' = (UsageUpdate, []) \<and>
   snd (process_memory_query student_session scored_client
          ''Update memory abc I prefer tea at 5'')
     = [UpdateMemory ''abc'' ''I prefer tea at 5''] \<and>
   process_memory_query student_session scored_client '' Update Memory ''
     = (UnknownMemoryCommand, [])"
proof -
  have m: "memory_available student_session"
    by (simp add: student_session_def)
  have a: "startswith (py_strip (py_lower ''update memory abc'')) ''update memory ''"
    by code_simp
  have a': "py_split CHR '' '' 3 ''update memory abc'' = [''update'', ''memory'', ''abc'']"
    by code_simp
  have b: "startswith (py_strip (py_lower ''Update memory abc I prefer tea at 5''))
             ''update memory ''"
    by code_simp
  have b': "py_split CHR '' '' 3 ''Update memory abc I prefer tea at 5''
              = [''Update'', ''memory'', ''abc'', ''I prefer tea at 5'']"
    by code_simp
  have c: "py_strip (py_lower '' Update Memory '') = ''update memory''"
    by code_simp
  show ?thesis
    using update_memory_usage [OF m, of "''update memory abc''" scored_client]
          update_memory_usage [OF m, of "''Update memory abc I prefer tea at 5''" scored_client]
          update_memory_usage [OF m, of "'' Update Memory ''" scored_client]
    unfolding a' b'
    using a b c by simp
qed


section \<open>Storing a memory\<close>

lemma remember_branch:
  assumes "memory_available st"
    and "l = py_strip (py_lower user_input)"
    and "startswith l ''remember that '' \<or> startswith l ''remember i '' \<or>
         startswith l ''remember to ''"
    and "memory_content =
           (if startswith l ''remember that ''
            then py_strip (py_replace user_input ''remember that'' [])
            else if startswith l ''remember i ''
            then py_strip (py_replace user_input ''remember i'' [])
            else py_strip (py_replace user_input ''remember to'' []))"
  shows "process_memory_query st mc user_input =
           (if length memory_content > 5
            then (case add_memory mc (user_id st) memory_content ''user_preference'' of
                    Success \<Rightarrow> (MemoryStored memory_content,
                                [AddMemory (user_id st) memory_content ''user_preference''])
                  | Failure err \<Rightarrow> (MemoryError err,
                                [AddMemory (user_id st) memory_content ''user_preference'']))
            else (InvalidMemory, []))"
  using assms(1,3)
  unfolding process_memory_query_def assms(2)[symmetric] assms(4) Let_def
  by auto

text \<open>
  C5. The claim: the matched prefix is stripped from the original text without regard
  to case, so that "Remember that buy milk" stores "buy milk". The code matches the
  prefix on the lower-cased text and deletes the lower-case phrase from the original
  text: the capitalised prefix stays, and the whole input is stored.
\<close>

theorem remember_capitalised_prefix_kept:
  "startswith (py_strip (py_lower ''Remember that buy milk'')) ''remember that '' \<and>
   process_memory_query student_session scored_client ''Remember that buy milk'' =
     (MemoryStored ''Remember that buy milk'',
      [AddMemory ''student_001'' ''Remember that buy milk'' ''user_preference''])"
  by code_simp

lemma remember_lowercase_example:
  "process_memory_query student_session scored_client ''remember that buy milk'' =
     (MemoryStored ''buy milk'', [AddMemory ''student_001'' ''buy milk'' ''user_preference''])"
  by code_simp

lemma remember_short_capitalised_example:
  "process_memory_query student_session scored_client ''Remember to go'' =
     (MemoryStored ''Remember to go'',
      [AddMemory ''student_001'' ''Remember to go'' ''user_preference''])"
  by code_simp

lemma remember_short_example:
  "process_memory_query student_session scored_client ''remember to go'' = (InvalidMemory, [])"
  by code_simp

lemma remember_repeated_phrase_example:
  "process_memory_query student_session scored_client
       ''remember that I said remember that twice'' =
     (MemoryStored ''I said  twice'',
      [AddMemory ''student_001'' ''I said  twice'' ''user_preference''])"
  by code_simp

end
